theory Spec2Isabelle
  imports Complex_Main
begin

section \<open>The calculator tool of \<^verbatim>\<open>verl/tools/gsm8k_calc.py\<close>\<close>

text \<open>
  \<^verbatim>\<open>CalculatorTool\<close> keeps one dictionary, \<^verbatim>\<open>self._instance_dict\<close>, from instance
  identifiers to a small dictionary with the keys \<^verbatim>\<open>expression\<close>, \<^verbatim>\<open>result\<close>,
  \<^verbatim>\<open>expected_result\<close> and \<^verbatim>\<open>reward\<close>. Its four methods are embedded below as
  functions that take the dictionary and return it, together with either the value the
  method returns or the exception it raises. The coroutines are run to completion one
  after the other; nothing is said about interleavings.
\<close>

subsection \<open>Exceptions\<close>

text \<open>
  The exception classes that the method bodies can meet. \<open>KeyError\<close> carries the
  missing key. \<open>KeyboardInterrupt\<close>, \<open>SystemExit\<close> and \<open>GeneratorExit\<close> derive from
  \<^verbatim>\<open>BaseException\<close> only, so \<^verbatim>\<open>except Exception\<close> lets them pass.
  \<open>Unmodelled\<close> is no Python class: the interpreter fragment of this theory answers
  with it on an input outside the fragment. No handler below catches it, so a run that
  has met such an input ends in \<open>Inl Unmodelled\<close> and says nothing about Python.
\<close>

datatype exn =
    JSONDecodeError
  | RecursionError
  | SyntaxError
  | NameError string
  | TypeError
  | ValueError
  | AttributeError
  | ZeroDivisionError
  | OverflowError
  | MemoryError
  | KeyError string
  | KeyboardInterrupt
  | SystemExit
  | GeneratorExit
  | Unmodelled

fun is_Exception :: "exn \<Rightarrow> bool" where
  "is_Exception KeyboardInterrupt = False"
| "is_Exception SystemExit = False"
| "is_Exception GeneratorExit = False"
| "is_Exception Unmodelled = False"
| "is_Exception _ = True"

subsection \<open>Numbers\<close>

text \<open>
  A Python \<^verbatim>\<open>float\<close> is an IEEE binary64 value: a rational number that the format
  represents, an infinity or a NaN. The sign of zero is not kept (it changes no
  comparison and no difference). \<open>round_double\<close> is rounding to nearest, ties to even,
  with gradual underflow: \<open>e\<close> is the binary exponent of the operand (at least that of
  the smallest normal number), \<open>n\<close> its significand rounded to an integer of at most 53
  bits, and the result \<open>n * 2 ^ (e - 52)\<close> is an infinity where it reaches \<open>2 ^ 1024\<close>.
\<close>

datatype pyfloat = Finite rat | PosInf | NegInf | NaN

definition pow2 :: "int \<Rightarrow> rat" where
  "pow2 e = (if 0 \<le> e then 2 ^ nat e else 1 / 2 ^ nat (- e))"

function bit_length :: "int \<Rightarrow> int" where
  "bit_length n = (if n \<le> 0 then 0 else 1 + bit_length (n div 2))"
  by pat_completeness auto
termination
  by (relation "measure nat") auto

declare bit_length.simps [simp del]

definition floor_log2 :: "rat \<Rightarrow> int" where
  "floor_log2 a =
     (if 1 \<le> a then bit_length \<lfloor>a\<rfloor> - 1
      else - bit_length (\<lceil>1 / a\<rceil> - 1))"

definition round_half_even :: "rat \<Rightarrow> int" where
  "round_half_even x =
     (let f = \<lfloor>x\<rfloor>; r = x - of_int f
      in if r < 1 / 2 then f
         else if 1 / 2 < r then f + 1
         else if even f then f else f + 1)"

definition round_double :: "rat \<Rightarrow> pyfloat" where
  "round_double q =
     (if q = 0 then Finite 0
      else
        let a = \<bar>q\<bar>;
            e = max (floor_log2 a) (- 1022);
            ulp = pow2 (e - 52);
            n = round_half_even (a / ulp)
        in if 1023 < e \<or> (e = 1023 \<and> 2 ^ 53 \<le> n) then (if 0 < q then PosInf else NegInf)
           else Finite (if 0 < q then of_int n * ulp else - (of_int n * ulp)))"

text \<open>
  The values for which \<^verbatim>\<open>isinstance(result, (int, float))\<close> holds: \<^verbatim>\<open>int\<close>, its
  subclass \<^verbatim>\<open>bool\<close>, and \<^verbatim>\<open>float\<close>.
\<close>

datatype number = PyInt int | PyBool bool | PyFloat pyfloat

text \<open>\<^verbatim>\<open>float(n)\<close> of an \<^verbatim>\<open>int\<close>: correctly rounded, and an \<^verbatim>\<open>OverflowError\<close>
  where the nearest double would be an infinity.\<close>

definition float_of_int :: "int \<Rightarrow> exn + pyfloat" where
  "float_of_int n =
     (case round_double (of_int n) of
        Finite q \<Rightarrow> Inr (Finite q)
      | _ \<Rightarrow> Inl OverflowError)"

fun float_neg :: "pyfloat \<Rightarrow> pyfloat" where
  "float_neg (Finite q) = Finite (- q)"
| "float_neg PosInf = NegInf"
| "float_neg NegInf = PosInf"
| "float_neg NaN = NaN"

fun float_add :: "pyfloat \<Rightarrow> pyfloat \<Rightarrow> pyfloat" where
  "float_add (Finite a) (Finite b) = round_double (a + b)"
| "float_add NaN _ = NaN"
| "float_add _ NaN = NaN"
| "float_add PosInf NegInf = NaN"
| "float_add NegInf PosInf = NaN"
| "float_add PosInf _ = PosInf"
| "float_add NegInf _ = NegInf"
| "float_add _ PosInf = PosInf"
| "float_add _ NegInf = NegInf"

definition float_sub :: "pyfloat \<Rightarrow> pyfloat \<Rightarrow> pyfloat" where
  "float_sub x y = float_add x (float_neg y)"

fun float_abs :: "pyfloat \<Rightarrow> pyfloat" where
  "float_abs (Finite q) = Finite \<bar>q\<bar>"
| "float_abs PosInf = PosInf"
| "float_abs NegInf = PosInf"
| "float_abs NaN = NaN"

fun float_less :: "pyfloat \<Rightarrow> pyfloat \<Rightarrow> bool" where
  "float_less (Finite a) (Finite b) = (a < b)"
| "float_less NaN _ = False"
| "float_less _ NaN = False"
| "float_less PosInf _ = False"
| "float_less _ NegInf = False"
| "float_less _ _ = True"

text \<open>An \<^verbatim>\<open>int\<close> against a \<^verbatim>\<open>float\<close>: Python compares the exact values and converts
  neither operand.\<close>

fun int_less_float :: "int \<Rightarrow> pyfloat \<Rightarrow> bool" where
  "int_less_float i (Finite b) = (of_int i < b)"
| "int_less_float i PosInf = True"
| "int_less_float i NegInf = False"
| "int_less_float i NaN = False"

definition int_of_bool :: "bool \<Rightarrow> int" where
  "int_of_bool b = (if b then 1 else 0)"

text \<open>\<^verbatim>\<open>x - y\<close>: exact on two integers (a \<^verbatim>\<open>bool\<close> counts as 0 or 1); where one
  operand is a \<^verbatim>\<open>float\<close> the other is converted first, which can raise.\<close>

fun as_int :: "number \<Rightarrow> int option" where
  "as_int (PyInt i) = Some i"
| "as_int (PyBool b) = Some (int_of_bool b)"
| "as_int (PyFloat _) = None"

definition as_float :: "number \<Rightarrow> exn + pyfloat" where
  "as_float x = (case x of PyFloat f \<Rightarrow> Inr f | PyInt i \<Rightarrow> float_of_int i | PyBool b \<Rightarrow> float_of_int (int_of_bool b))"

definition py_sub :: "number \<Rightarrow> number \<Rightarrow> exn + number" where
  "py_sub x y =
     (case (as_int x, as_int y) of
        (Some i, Some j) \<Rightarrow> Inr (PyInt (i - j))
      | _ \<Rightarrow>
         (case as_float x of
            Inl e \<Rightarrow> Inl e
          | Inr a \<Rightarrow>
             (case as_float y of
                Inl e \<Rightarrow> Inl e
              | Inr b \<Rightarrow> Inr (PyFloat (float_sub a b)))))"

fun py_abs :: "number \<Rightarrow> number" where
  "py_abs (PyInt i) = PyInt \<bar>i\<bar>"
| "py_abs (PyBool b) = PyInt (int_of_bool b)"
| "py_abs (PyFloat f) = PyFloat (float_abs f)"

fun py_less :: "number \<Rightarrow> pyfloat \<Rightarrow> bool" where
  "py_less (PyInt i) c = int_less_float i c"
| "py_less (PyBool b) c = int_less_float (int_of_bool b) c"
| "py_less (PyFloat f) c = float_less f c"

text \<open>The three literals of \<^verbatim>\<open>calc_reward\<close>, as the doubles Python reads them to.\<close>

definition tol_exact :: pyfloat where
  "tol_exact = round_double (1 / 10 ^ 10)"

definition tol_very_close :: pyfloat where
  "tol_very_close = round_double (1 / 100)"

definition tol_close :: pyfloat where
  "tol_close = round_double (1 / 10)"


subsection \<open>What the interpreter provides\<close>

text \<open>
  \<^verbatim>\<open>execute\<close> calls four things that are not code of the tool: \<^verbatim>\<open>json.loads\<close>,
  the built-in \<^verbatim>\<open>str\<close> (on a decoded value that is not a string), the built-in
  \<^verbatim>\<open>eval\<close> (always with the globals \<^verbatim>\<open>{"__builtins__": {}}\<close> and the locals
  \<^verbatim>\<open>{"abs": abs, "round": round}\<close>) and the built-in \<^verbatim>\<open>float\<close> (on a value that
  is neither \<^verbatim>\<open>int\<close> nor \<^verbatim>\<open>float\<close>). Each returns a value or raises. The methods
  are embedded over an arbitrary such \<open>host\<close>; the general theorems hold for every host.
  A call of \<^verbatim>\<open>eval\<close> is taken to leave \<^verbatim>\<open>self._instance_dict\<close> alone.
\<close>

datatype json =
    JNull
  | JBool bool
  | JInt int
  | JFloat pyfloat
  | JStr string
  | JList "json list"
  | JDict "(string \<times> json) list"

text \<open>Values that are not numbers: those the interpreter fragment below can produce,
  and \<open>Other\<close> for any further object.\<close>

datatype pyobj =
    Str string
  | NoneObj
  | Builtin string
  | Dict "(string \<times> string) list"
  | Other string

datatype pyval = Num number | Obj pyobj

record host =
  json_loads :: "string \<Rightarrow> exn + json"
  py_str :: "json \<Rightarrow> exn + string"
  py_eval :: "string \<Rightarrow> exn + pyval"
  py_float :: "pyobj \<Rightarrow> exn + pyfloat"

subsection \<open>The instance dictionary\<close>

text \<open>One entry of \<^verbatim>\<open>self._instance_dict\<close>. The rewards the tool stores and returns are
  the literals \<^verbatim>\<open>0.0\<close>, \<^verbatim>\<open>0.5\<close>, \<^verbatim>\<open>0.8\<close>, \<^verbatim>\<open>1.0\<close> and \<^verbatim>\<open>-0.05\<close>; they are only
  compared with each other, and are kept as the real numbers they are written as.\<close>

record tool_instance =
  expression :: string
  result :: "number option"
  expected_result :: "number option"
  reward :: real

type_synonym instance_dict = "string \<rightharpoonup> tool_instance"

text \<open>The text \<^verbatim>\<open>f"Expression: {expression}, Result: {result}"\<close>, kept as the two
  values it is formatted from.\<close>

datatype message = Message string "number option"

type_synonym metadata = "(string \<times> string) list"

subsection \<open>\<^verbatim>\<open>create\<close>\<close>

text \<open>\<open>uuid\<close> is the text of the identifier that \<^verbatim>\<open>uuid4()\<close> draws when it is called.\<close>

definition create ::
  "string \<Rightarrow> instance_dict \<Rightarrow> string option \<Rightarrow> number option \<Rightarrow> string \<times> instance_dict" where
  "create uuid d instance_id expected =
     (let k = (case instance_id of None \<Rightarrow> uuid | Some i \<Rightarrow> i)
      in (k, d(k \<mapsto> \<lparr>expression = [], result = None, expected_result = expected, reward = 0\<rparr>)))"

subsection \<open>\<^verbatim>\<open>calc_reward\<close>\<close>

definition tier :: "number \<Rightarrow> real" where
  "tier x =
     (if py_less x tol_exact then 1
      else if py_less x tol_very_close then 0.8
      else if py_less x tol_close then 0.5
      else 0)"

definition calc_reward :: "instance_dict \<Rightarrow> string \<Rightarrow> (exn + real) \<times> instance_dict" where
  "calc_reward d instance_id =
     (case d instance_id of
        None \<Rightarrow> (Inl (KeyError instance_id), d)
      | Some inst \<Rightarrow>
         (case (result inst, expected_result inst) of
            (Some r, Some t) \<Rightarrow>
              (case py_sub r t of
                 Inl e \<Rightarrow> (Inl e, d)
               | Inr diff \<Rightarrow> (Inr (tier (py_abs diff)), d))
          | _ \<Rightarrow> (Inr 0, d)))"

text \<open>What \<^verbatim>\<open>calc_reward\<close> makes of a stored result and a target.\<close>

definition score :: "number option \<Rightarrow> number option \<Rightarrow> exn + real" where
  "score res expected =
     (case (res, expected) of
        (Some r, Some t) \<Rightarrow>
          (case py_sub r t of Inl e \<Rightarrow> Inl e | Inr diff \<Rightarrow> Inr (tier (py_abs diff)))
      | _ \<Rightarrow> Inr 0)"

subsection \<open>\<^verbatim>\<open>execute\<close>\<close>

text \<open>Lines 58 to 68: the expression text of a payload.\<close>

definition parse_parameters :: "host \<Rightarrow> string \<Rightarrow> exn + string" where
  "parse_parameters h parameters =
     (case json_loads h parameters of
        Inl e \<Rightarrow> (if e = JSONDecodeError then Inr [] else Inl e)
      | Inr (JDict kvs) \<Rightarrow>
         (case map_of kvs ''expression'' of
            None \<Rightarrow> Inr []
          | Some (JStr s) \<Rightarrow> Inr s
          | Some v \<Rightarrow> py_str h v)
      | Inr _ \<Rightarrow> Inr [])"

text \<open>Lines 70 to 77: \<^verbatim>\<open>except Exception\<close> turns an exception into the result
  \<^verbatim>\<open>None\<close>; what is no \<^verbatim>\<open>Exception\<close> passes.\<close>

definition absorb :: "exn \<Rightarrow> exn + number option" where
  "absorb e = (if is_Exception e then Inr None else Inl e)"

definition evaluate :: "host \<Rightarrow> string \<Rightarrow> exn + number option" where
  "evaluate h ex =
     (case py_eval h ex of
        Inl e \<Rightarrow> absorb e
      | Inr (Num n) \<Rightarrow> Inr (Some n)
      | Inr (Obj x) \<Rightarrow>
         (case py_float h x of
            Inl e \<Rightarrow> absorb e
          | Inr f \<Rightarrow> Inr (Some (PyFloat f))))"

definition shaping :: "real \<Rightarrow> real \<Rightarrow> real" where
  "shaping new old = (if new > old then 0 else - 0.05)"

definition execute ::
  "host \<Rightarrow> instance_dict \<Rightarrow> string \<Rightarrow> string \<Rightarrow>
     (exn + message \<times> real \<times> metadata) \<times> instance_dict" where
  "execute h d instance_id parameters =
     (case parse_parameters h parameters of
        Inl e \<Rightarrow> (Inl e, d)
      | Inr ex \<Rightarrow>
         (case evaluate h ex of
            Inl e \<Rightarrow> (Inl e, d)
          | Inr res \<Rightarrow>
             (case d instance_id of
                None \<Rightarrow> (Inl (KeyError instance_id), d)
              | Some inst \<Rightarrow>
                 (let d1 = d(instance_id \<mapsto> inst\<lparr>expression := ex, result := res\<rparr>)
                  in case fst (calc_reward d1 instance_id) of
                       Inl e \<Rightarrow> (Inl e, d1)
                     | Inr rw \<Rightarrow>
                        (Inr (Message ex res, shaping rw (reward inst), []),
                         d1(instance_id \<mapsto> inst\<lparr>expression := ex, result := res, reward := rw\<rparr>))))))"

subsection \<open>\<^verbatim>\<open>release\<close>\<close>



subsection \<open>A fragment of the interpreter\<close>

definition printable :: "char \<Rightarrow> bool" where
  "printable c = (32 \<le> (of_char c :: nat) \<and> (of_char c :: nat) \<le> 126)"

definition is_digit :: "char \<Rightarrow> bool" where
  "is_digit c = (c \<in> set ''0123456789'')"

definition is_name_start :: "char \<Rightarrow> bool" where
  "is_name_start c = (c \<in> set ''abcdefghijklmnopqrstuvwxyzABCDEFGHIJKLMNOPQRSTUVWXYZ_'')"

definition is_name_char :: "char \<Rightarrow> bool" where
  "is_name_char c = (is_name_start c \<or> is_digit c)"

definition digit_value :: "char \<Rightarrow> int" where
  "digit_value c = int (of_char c) - 48"

definition digits_value :: "string \<Rightarrow> int" where
  "digits_value ds = foldl (\<lambda>a c. 10 * a + digit_value c) 0 ds"

definition plain_digits :: "string \<Rightarrow> bool" where
  "plain_digits ds = (ds = ''0'' \<or> (ds \<noteq> [] \<and> hd ds \<noteq> CHR ''0'' \<and> length ds \<le> 4300))"

definition glued :: "string \<Rightarrow> bool" where
  "glued rest = (case rest of [] \<Rightarrow> False | x # _ \<Rightarrow> is_name_char x \<or> x = CHR ''.'')"

definition reserved_words :: "string list" where
  "reserved_words =
     [''and'', ''as'', ''assert'', ''async'', ''await'', ''break'', ''class'', ''continue'',
      ''def'', ''del'', ''elif'', ''else'', ''except'', ''finally'', ''for'', ''from'',
      ''global'', ''if'', ''import'', ''in'', ''is'', ''lambda'', ''nonlocal'', ''not'', ''or'',
      ''pass'', ''raise'', ''return'', ''try'', ''while'', ''with'', ''yield'']"

datatype token =
    TInt int
  | TFloat pyfloat
  | TStr string
  | TName string
  | TPlus | TMinus | TStar | TSlash | TDoubleSlash | TPercent | TDoubleStar
  | TLParen | TRParen | TDot | TComma

definition single_op :: "char \<Rightarrow> token option" where
  "single_op c =
     (if c = CHR ''+'' then Some TPlus
      else if c = CHR ''-'' then Some TMinus
      else if c = CHR ''%'' then Some TPercent
      else if c = CHR ''('' then Some TLParen
      else if c = CHR '')'' then Some TRParen
      else if c = CHR ''.'' then Some TDot
      else if c = CHR '','' then Some TComma
      else None)"

lemma dropWhile_tail_shorter: "dropWhile P xs = y # ys \<Longrightarrow> length ys < length xs"
  using length_dropWhile_le [of P xs] by simp

function tokenize :: "string \<Rightarrow> token list option" where
  "tokenize [] = Some []"
| "tokenize (c # cs) =
     (if c = CHR '' '' then tokenize cs
      else if is_digit c then
        (let ds = c # takeWhile is_digit cs; rest = dropWhile is_digit cs
         in if \<not> plain_digits ds then None
            else (case rest of
                    [] \<Rightarrow> Some [TInt (digits_value ds)]
                  | x # r2 \<Rightarrow>
                     (if x = CHR ''.'' then
                        (let fs = takeWhile is_digit r2; r3 = dropWhile is_digit r2
                         in if fs = [] \<or> glued r3 then None
                            else map_option
                              (Cons (TFloat (round_double
                                 (of_int (digits_value (ds @ fs)) / 10 ^ length fs))))
                              (tokenize r3))
                      else if is_name_char x then None
                      else map_option (Cons (TInt (digits_value ds))) (tokenize rest))))
      else if is_name_start c then
        (let rest = dropWhile is_name_char cs
         in if (case rest of [] \<Rightarrow> False | x # _ \<Rightarrow> x = CHR 0x27 \<or> x = CHR 0x22) then None
            else map_option (Cons (TName (c # takeWhile is_name_char cs))) (tokenize rest))
      else if c = CHR 0x27 \<or> c = CHR 0x22 then
        (case dropWhile (\<lambda>x. x \<noteq> c \<and> x \<noteq> CHR 0x5C) cs of
           [] \<Rightarrow> None
         | q # r2 \<Rightarrow>
            (if q = c
             then map_option (Cons (TStr (takeWhile (\<lambda>x. x \<noteq> c \<and> x \<noteq> CHR 0x5C) cs))) (tokenize r2)
             else None))
      else if c = CHR ''*'' then
        (case cs of
           [] \<Rightarrow> Some [TStar]
         | x # r \<Rightarrow>
            (if x = CHR ''*'' then map_option (Cons TDoubleStar) (tokenize r)
             else map_option (Cons TStar) (tokenize cs)))
      else if c = CHR ''/'' then
        (case cs of
           [] \<Rightarrow> Some [TSlash]
         | x # r \<Rightarrow>
            (if x = CHR ''/'' then map_option (Cons TDoubleSlash) (tokenize r)
             else map_option (Cons TSlash) (tokenize cs)))
      else (case single_op c of
              None \<Rightarrow> None
            | Some t \<Rightarrow> map_option (Cons t) (tokenize cs)))"
  by pat_completeness auto
termination
proof (relation "measure length", goal_cases)
  case 1 show ?case by simp
next
  case (2 c cs) then show ?case by simp
next
  case (3 c cs ds rest x r2 fs r3)
  have "length (dropWhile is_digit r2) \<le> length r2" by (rule length_dropWhile_le)
  moreover have "length r2 < length cs"
    using 3 dropWhile_tail_shorter [of is_digit cs x r2] by simp
  ultimately show ?case using 3 by simp
next
  case (4 c cs ds rest x r2)
  have "length (dropWhile is_digit cs) \<le> length cs" by (rule length_dropWhile_le)
  then show ?case using 4 by (auto simp: le_imp_less_Suc)
next
  case (5 c cs rest)
  have "length (dropWhile is_name_char cs) \<le> length cs" by (rule length_dropWhile_le)
  then show ?case using 5 by (auto simp: le_imp_less_Suc)
next
  case (6 c cs q r2)
  then show ?case
    using dropWhile_tail_shorter [of "\<lambda>x. x \<noteq> c \<and> x \<noteq> CHR 0x5C" cs q r2] by simp
qed auto


text \<open>The syntax trees, named as in Python's \<^verbatim>\<open>ast\<close> module.\<close>

datatype binop = Add | Sub | Mult | Div | FloorDiv | Mod | Pow

datatype expr =
    IntLit int
  | FloatLit pyfloat
  | StrLit string
  | TrueLit
  | FalseLit
  | NoneLit
  | Name string
  | UAdd expr
  | USub expr
  | BinOp expr binop expr
  | Call expr "expr list"
  | Attribute expr string

definition additive :: "token \<Rightarrow> binop option" where
  "additive t = (case t of TPlus \<Rightarrow> Some Add | TMinus \<Rightarrow> Some Sub | _ \<Rightarrow> None)"

definition multiplicative :: "token \<Rightarrow> binop option" where
  "multiplicative t =
     (case t of TStar \<Rightarrow> Some Mult | TSlash \<Rightarrow> Some Div | TDoubleSlash \<Rightarrow> Some FloorDiv
      | TPercent \<Rightarrow> Some Mod | _ \<Rightarrow> None)"

definition atom_of_name :: "string \<Rightarrow> expr option" where
  "atom_of_name n =
     (if n = ''True'' then Some TrueLit
      else if n = ''False'' then Some FalseLit
      else if n = ''None'' then Some NoneLit
      else if n \<in> set reserved_words then None
      else Some (Name n))"

text \<open>
  Recursive descent with Python's precedences: sums of products of signed powers of
  primaries, a primary being an atom followed by calls and attribute references. A
  \<open>goal\<close> is what is being read (with what has been read of it so far); the first
  argument of \<open>descend\<close> bounds the depth of the descent; \<open>None\<close> is "not in the
  fragment".
\<close>

datatype goal =
    Expr
  | ExprRest expr
  | Term
  | TermRest expr
  | Factor
  | Power
  | Atom
  | Trailers expr
  | Args expr "expr list"

primrec descend :: "nat \<Rightarrow> goal \<Rightarrow> token list \<Rightarrow> (expr \<times> token list) option" where
  "descend 0 g ts = None"
| "descend (Suc n) g ts =
     (case g of
        Expr \<Rightarrow>
          (case descend n Term ts of None \<Rightarrow> None | Some (l, r) \<Rightarrow> descend n (ExprRest l) r)
      | ExprRest l \<Rightarrow>
          (case ts of
             [] \<Rightarrow> Some (l, [])
           | t # r \<Rightarrow>
              (case additive t of
                 None \<Rightarrow> Some (l, ts)
               | Some b \<Rightarrow>
                  (case descend n Term r of
                     None \<Rightarrow> None
                   | Some (x, r') \<Rightarrow> descend n (ExprRest (BinOp l b x)) r')))
      | Term \<Rightarrow>
          (case descend n Factor ts of None \<Rightarrow> None | Some (l, r) \<Rightarrow> descend n (TermRest l) r)
      | TermRest l \<Rightarrow>
          (case ts of
             [] \<Rightarrow> Some (l, [])
           | t # r \<Rightarrow>
              (case multiplicative t of
                 None \<Rightarrow> Some (l, ts)
               | Some b \<Rightarrow>
                  (case descend n Factor r of
                     None \<Rightarrow> None
                   | Some (x, r') \<Rightarrow> descend n (TermRest (BinOp l b x)) r')))
      | Factor \<Rightarrow>
          (case ts of
             [] \<Rightarrow> None
           | t # r \<Rightarrow>
              (if t = TPlus then map_option (\<lambda>(x, r'). (UAdd x, r')) (descend n Factor r)
               else if t = TMinus then map_option (\<lambda>(x, r'). (USub x, r')) (descend n Factor r)
               else descend n Power ts))
      | Power \<Rightarrow>
          (case descend n Atom ts of
             None \<Rightarrow> None
           | Some (a, r) \<Rightarrow>
              (case descend n (Trailers a) r of
                 None \<Rightarrow> None
               | Some (p, r') \<Rightarrow>
                  (case r' of
                     [] \<Rightarrow> Some (p, [])
                   | t # r'' \<Rightarrow>
                      (if t = TDoubleStar
                       then map_option (\<lambda>(x, r3). (BinOp p Pow x, r3)) (descend n Factor r'')
                       else Some (p, r')))))
      | Atom \<Rightarrow>
          (case ts of
             [] \<Rightarrow> None
           | t # r \<Rightarrow>
              (case t of
                 TInt i \<Rightarrow> Some (IntLit i, r)
               | TFloat f \<Rightarrow> Some (FloatLit f, r)
               | TStr s \<Rightarrow> Some (StrLit s, r)
               | TName x \<Rightarrow> map_option (\<lambda>a. (a, r)) (atom_of_name x)
               | TLParen \<Rightarrow>
                  (case descend n Expr r of
                     None \<Rightarrow> None
                   | Some (e, r') \<Rightarrow>
                      (case r' of
                         [] \<Rightarrow> None
                       | t' # r'' \<Rightarrow> (if t' = TRParen then Some (e, r'') else None)))
               | _ \<Rightarrow> None))
      | Trailers a \<Rightarrow>
          (case ts of
             [] \<Rightarrow> Some (a, [])
           | t # r \<Rightarrow>
              (if t = TDot then
                 (case r of
                    [] \<Rightarrow> None
                  | t' # r' \<Rightarrow>
                     (case t' of
                        TName x \<Rightarrow>
                          (case atom_of_name x of
                             Some (Name y) \<Rightarrow> descend n (Trailers (Attribute a y)) r'
                           | _ \<Rightarrow> None)
                      | _ \<Rightarrow> None))
               else if t = TLParen then
                 (case r of
                    [] \<Rightarrow> None
                  | t' # r' \<Rightarrow>
                     (if t' = TRParen then descend n (Trailers (Call a [])) r'
                      else (case descend n (Args a []) r of
                              None \<Rightarrow> None
                            | Some (c, r'') \<Rightarrow> descend n (Trailers c) r'')))
               else Some (a, ts)))
      | Args f acc \<Rightarrow>
          (case descend n Expr ts of
             None \<Rightarrow> None
           | Some (e, r) \<Rightarrow>
              (case r of
                 [] \<Rightarrow> None
               | t # r' \<Rightarrow>
                  (if t = TRParen then Some (Call f (acc @ [e]), r')
                   else if t = TComma then descend n (Args f (acc @ [e])) r'
                   else None))))"

definition parse :: "token list \<Rightarrow> expr option" where
  "parse ts =
     (case descend (10 * length ts + 10) Expr ts of
        Some (e, []) \<Rightarrow> Some e
      | _ \<Rightarrow> None)"


text \<open>Multiplication and division of doubles; \<open>float_div\<close> is used only after the test
  for a zero divisor.\<close>

fun float_sign :: "pyfloat \<Rightarrow> int" where
  "float_sign (Finite q) = (if q < 0 then - 1 else if q = 0 then 0 else 1)"
| "float_sign PosInf = 1"
| "float_sign NegInf = - 1"
| "float_sign NaN = 0"

definition signed_inf :: "int \<Rightarrow> pyfloat" where
  "signed_inf s = (if 0 < s then PosInf else NegInf)"

definition float_mul :: "pyfloat \<Rightarrow> pyfloat \<Rightarrow> pyfloat" where
  "float_mul x y =
     (if x = NaN \<or> y = NaN then NaN
      else case (x, y) of
             (Finite a, Finite b) \<Rightarrow> round_double (a * b)
           | _ \<Rightarrow>
              (if float_sign x * float_sign y = 0 then NaN
               else signed_inf (float_sign x * float_sign y)))"

definition float_div :: "pyfloat \<Rightarrow> pyfloat \<Rightarrow> pyfloat" where
  "float_div x y =
     (if x = NaN \<or> y = NaN then NaN
      else case (x, y) of
             (Finite a, Finite b) \<Rightarrow> round_double (a / b)
           | (Finite a, _) \<Rightarrow> Finite 0
           | (_, Finite b) \<Rightarrow> signed_inf (float_sign x * float_sign y)
           | _ \<Rightarrow> NaN)"

definition int_arith :: "binop \<Rightarrow> int \<Rightarrow> int \<Rightarrow> exn + number" where
  "int_arith b i j =
     (case b of
        Add \<Rightarrow> Inr (PyInt (i + j))
      | Sub \<Rightarrow> Inr (PyInt (i - j))
      | Mult \<Rightarrow> Inr (PyInt (i * j))
      | Div \<Rightarrow>
         (if j = 0 then Inl ZeroDivisionError
          else case round_double (of_int i / of_int j) of
                 Finite q \<Rightarrow> Inr (PyFloat (Finite q))
               | _ \<Rightarrow> Inl OverflowError)
      | FloorDiv \<Rightarrow> (if j = 0 then Inl ZeroDivisionError else Inr (PyInt (i div j)))
      | Mod \<Rightarrow> (if j = 0 then Inl ZeroDivisionError else Inr (PyInt (i mod j)))
      | Pow \<Rightarrow> (if 0 \<le> j \<and> j \<le> 10000 then Inr (PyInt (i ^ nat j)) else Inl Unmodelled))"

definition float_arith :: "binop \<Rightarrow> pyfloat \<Rightarrow> pyfloat \<Rightarrow> exn + number" where
  "float_arith b x y =
     (case b of
        Add \<Rightarrow> Inr (PyFloat (float_add x y))
      | Sub \<Rightarrow> Inr (PyFloat (float_sub x y))
      | Mult \<Rightarrow> Inr (PyFloat (float_mul x y))
      | Div \<Rightarrow> (if y = Finite 0 then Inl ZeroDivisionError else Inr (PyFloat (float_div x y)))
      | _ \<Rightarrow> Inl Unmodelled)"

definition arith :: "binop \<Rightarrow> number \<Rightarrow> number \<Rightarrow> exn + number" where
  "arith b x y =
     (case (as_int x, as_int y) of
        (Some i, Some j) \<Rightarrow> int_arith b i j
      | _ \<Rightarrow>
         (case as_float x of
            Inl e \<Rightarrow> Inl e
          | Inr a \<Rightarrow> (case as_float y of Inl e \<Rightarrow> Inl e | Inr c \<Rightarrow> float_arith b a c)))"

definition binary :: "binop \<Rightarrow> pyval \<Rightarrow> pyval \<Rightarrow> exn + pyval" where
  "binary b x y =
     (case (x, y) of
        (Num m, Num n) \<Rightarrow> (case arith b m n of Inl e \<Rightarrow> Inl e | Inr r \<Rightarrow> Inr (Num r))
      | _ \<Rightarrow> Inl Unmodelled)"

definition negative :: "pyval \<Rightarrow> exn + pyval" where
  "negative x =
     (case x of
        Num (PyFloat f) \<Rightarrow> Inr (Num (PyFloat (float_neg f)))
      | Num (PyInt i) \<Rightarrow> Inr (Num (PyInt (- i)))
      | Num (PyBool b) \<Rightarrow> Inr (Num (PyInt (- int_of_bool b)))
      | Obj _ \<Rightarrow> Inl Unmodelled)"

definition positive :: "pyval \<Rightarrow> exn + pyval" where
  "positive x =
     (case x of
        Num (PyBool b) \<Rightarrow> Inr (Num (PyInt (int_of_bool b)))
      | Num n \<Rightarrow> Inr (Num n)
      | Obj _ \<Rightarrow> Inl Unmodelled)"

text \<open>The two functions of the locals. \<^verbatim>\<open>round\<close> with one argument rounds a
  \<^verbatim>\<open>float\<close> to the nearest \<^verbatim>\<open>int\<close>, ties to even.\<close>

definition call_abs :: "pyval list \<Rightarrow> exn + pyval" where
  "call_abs args =
     (case args of
        [Num n] \<Rightarrow> Inr (Num (py_abs n))
      | [Obj _] \<Rightarrow> Inl Unmodelled
      | _ \<Rightarrow> Inl TypeError)"

definition call_round :: "pyval list \<Rightarrow> exn + pyval" where
  "call_round args =
     (case args of
        [] \<Rightarrow> Inl TypeError
      | [Num (PyInt i)] \<Rightarrow> Inr (Num (PyInt i))
      | [Num (PyBool b)] \<Rightarrow> Inr (Num (PyInt (int_of_bool b)))
      | [Num (PyFloat (Finite q))] \<Rightarrow> Inr (Num (PyInt (round_half_even q)))
      | [Num (PyFloat NaN)] \<Rightarrow> Inl ValueError
      | [Num (PyFloat _)] \<Rightarrow> Inl OverflowError
      | _ \<Rightarrow> Inl Unmodelled)"

definition call :: "pyval \<Rightarrow> pyval list \<Rightarrow> exn + pyval" where
  "call f args =
     (case f of
        Obj (Builtin n) \<Rightarrow>
          (if n = ''abs'' then call_abs args
           else if n = ''round'' then call_round args
           else Inl Unmodelled)
      | Obj (Other _) \<Rightarrow> Inl Unmodelled
      | _ \<Rightarrow> Inl TypeError)"

definition int_attr :: "int \<Rightarrow> string \<Rightarrow> exn + pyval" where
  "int_attr i a =
     (if a = ''real'' \<or> a = ''numerator'' then Inr (Num (PyInt i))
      else if a = ''imag'' then Inr (Num (PyInt 0))
      else if a = ''denominator'' then Inr (Num (PyInt 1))
      else Inl Unmodelled)"

definition getattr :: "pyval \<Rightarrow> string \<Rightarrow> exn + pyval" where
  "getattr x a =
     (case x of
        Num (PyFloat f) \<Rightarrow>
          (if a = ''real'' then Inr (Num (PyFloat f))
           else if a = ''imag'' then Inr (Num (PyFloat (Finite 0)))
           else Inl Unmodelled)
      | Num (PyInt i) \<Rightarrow> int_attr i a
      | Num (PyBool b) \<Rightarrow> int_attr (int_of_bool b) a
      | Obj _ \<Rightarrow> Inl Unmodelled)"

text \<open>Name lookup: the locals, then the globals, then the builtins, which
  \<^verbatim>\<open>{"__builtins__": {}}\<close> makes empty.\<close>

definition sandbox_locals :: "(string \<times> pyval) list" where
  "sandbox_locals = [(''abs'', Obj (Builtin ''abs'')), (''round'', Obj (Builtin ''round''))]"

definition sandbox_globals :: "(string \<times> pyval) list" where
  "sandbox_globals = [(''__builtins__'', Obj (Dict []))]"

definition lookup_name :: "string \<Rightarrow> exn + pyval" where
  "lookup_name x =
     (case map_of sandbox_locals x of
        Some v \<Rightarrow> Inr v
      | None \<Rightarrow>
         (case map_of sandbox_globals x of
            Some v \<Rightarrow> Inr v
          | None \<Rightarrow> Inl (NameError x)))"

fun eval_expr :: "expr \<Rightarrow> exn + pyval"
  and eval_args :: "expr list \<Rightarrow> exn + pyval list"
where
  "eval_expr (IntLit i) = Inr (Num (PyInt i))"
| "eval_expr (FloatLit f) = Inr (Num (PyFloat f))"
| "eval_expr (StrLit s) = Inr (Obj (Str s))"
| "eval_expr TrueLit = Inr (Num (PyBool True))"
| "eval_expr FalseLit = Inr (Num (PyBool False))"
| "eval_expr NoneLit = Inr (Obj NoneObj)"
| "eval_expr (Name x) = lookup_name x"
| "eval_expr (UAdd e) = (case eval_expr e of Inl x \<Rightarrow> Inl x | Inr v \<Rightarrow> positive v)"
| "eval_expr (USub e) = (case eval_expr e of Inl x \<Rightarrow> Inl x | Inr v \<Rightarrow> negative v)"
| "eval_expr (BinOp l b r) =
     (case eval_expr l of
        Inl x \<Rightarrow> Inl x
      | Inr v \<Rightarrow> (case eval_expr r of Inl x \<Rightarrow> Inl x | Inr w \<Rightarrow> binary b v w))"
| "eval_expr (Call f args) =
     (case eval_expr f of
        Inl x \<Rightarrow> Inl x
      | Inr v \<Rightarrow> (case eval_args args of Inl x \<Rightarrow> Inl x | Inr ws \<Rightarrow> call v ws))"
| "eval_expr (Attribute e a) = (case eval_expr e of Inl x \<Rightarrow> Inl x | Inr v \<Rightarrow> getattr v a)"
| "eval_args [] = Inr []"
| "eval_args (e # es) =
     (case eval_expr e of
        Inl x \<Rightarrow> Inl x
      | Inr v \<Rightarrow> (case eval_args es of Inl x \<Rightarrow> Inl x | Inr vs \<Rightarrow> Inr (v # vs)))"

text \<open>\<^verbatim>\<open>eval(expression, {"__builtins__": {}}, {"abs": abs, "round": round})\<close> on
  printable ASCII text. Blank text is a syntax error; other text is read by the
  fragment or is outside it.\<close>

definition eval_sandbox :: "string \<Rightarrow> exn + pyval" where
  "eval_sandbox s =
     (if \<not> list_all printable s then Inl Unmodelled
      else if list_all (\<lambda>c. c = CHR '' '') s then Inl SyntaxError
      else case tokenize s of
             None \<Rightarrow> Inl Unmodelled
           | Some ts \<Rightarrow> (case parse ts of None \<Rightarrow> Inl Unmodelled | Some e \<Rightarrow> eval_expr e))"

text \<open>
  \<^verbatim>\<open>json.loads\<close> on printable ASCII text without a backslash in a string and without
  an exponent in a number, nested at most \<open>max_depth\<close> deep. Where the decoder of the
  standard library raises \<^verbatim>\<open>JSONDecodeError\<close>, so does this one. A \<open>jgoal\<close> is what is
  being read: a value, the members of an object (a key comes next) or the elements of
  an array (a value comes next), each with the depth that is left.
\<close>

definition skip_ws :: "string \<Rightarrow> string" where
  "skip_ws s = dropWhile (\<lambda>c. c = CHR '' '') s"

definition scan_string :: "string \<Rightarrow> exn + string \<times> string" where
  "scan_string cs =
     (case dropWhile (\<lambda>x. x \<noteq> CHR 0x22 \<and> x \<noteq> CHR 0x5C) cs of
        [] \<Rightarrow> Inl JSONDecodeError
      | q # r \<Rightarrow>
         (if q = CHR 0x22
          then Inr (takeWhile (\<lambda>x. x \<noteq> CHR 0x22 \<and> x \<noteq> CHR 0x5C) cs, r)
          else Inl Unmodelled))"

text \<open>The number at the head of the text, if one is there: an optional minus sign,
  \<^verbatim>\<open>0\<close> or digits that do not start with \<^verbatim>\<open>0\<close>, and an optional fraction.\<close>

definition scan_integer :: "string \<Rightarrow> (string \<times> string) option" where
  "scan_integer s =
     (case s of
        [] \<Rightarrow> None
      | c # cs \<Rightarrow>
         (if c = CHR ''0'' then Some ([c], cs)
          else if is_digit c then Some (c # takeWhile is_digit cs, dropWhile is_digit cs)
          else None))"

definition scan_number :: "string \<Rightarrow> (exn + json \<times> string) option" where
  "scan_number s =
     (let neg = (s \<noteq> [] \<and> hd s = CHR ''-'');
          sgn = (if neg then - 1 else 1)
      in case scan_integer (if neg then tl s else s) of
           None \<Rightarrow> None
         | Some (ds, r) \<Rightarrow>
            (let fs = (case r of [] \<Rightarrow> [] | x # r2 \<Rightarrow> if x = CHR ''.'' then takeWhile is_digit r2 else []);
                 r' = (if fs = [] then r else drop (Suc (length fs)) r)
             in if (case r' of [] \<Rightarrow> False | x # _ \<Rightarrow> x = CHR ''e'' \<or> x = CHR ''E'')
                   \<or> 4300 < length ds
                then Some (Inl Unmodelled)
                else if fs = [] then Some (Inr (JInt (sgn * digits_value ds), r'))
                else Some (Inr (JFloat (round_double
                        (of_int (sgn * digits_value (ds @ fs)) / 10 ^ length fs)), r'))))"

definition has_prefix :: "string \<Rightarrow> string \<Rightarrow> bool" where
  "has_prefix p s = (take (length p) s = p)"

fun dict_set :: "'k \<Rightarrow> 'v \<Rightarrow> ('k \<times> 'v) list \<Rightarrow> ('k \<times> 'v) list" where
  "dict_set k v [] = [(k, v)]"
| "dict_set k v ((k', v') # kvs) =
     (if k = k' then (k, v) # kvs else (k', v') # dict_set k v kvs)"

definition max_depth :: nat where
  "max_depth = 20"

datatype jgoal =
    JValue nat
  | JMembers nat "(string \<times> json) list"
  | JElements nat "json list"

primrec decode :: "nat \<Rightarrow> jgoal \<Rightarrow> string \<Rightarrow> exn + json \<times> string" where
  "decode 0 g s = Inl Unmodelled"
| "decode (Suc n) g s =
     (case g of
        JValue k \<Rightarrow>
          (case s of
             [] \<Rightarrow> Inl JSONDecodeError
           | c # cs \<Rightarrow>
              (if c = CHR 0x22 then
                 (case scan_string cs of Inl e \<Rightarrow> Inl e | Inr (v, r) \<Rightarrow> Inr (JStr v, r))
               else if c = CHR ''{'' then
                 (case skip_ws cs of
                    [] \<Rightarrow> Inl JSONDecodeError
                  | x # r \<Rightarrow>
                     (if x = CHR ''}'' then Inr (JDict [], r)
                      else if k = 0 then Inl Unmodelled
                      else decode n (JMembers (k - 1) []) (x # r)))
               else if c = CHR ''['' then
                 (case skip_ws cs of
                    [] \<Rightarrow> Inl JSONDecodeError
                  | x # r \<Rightarrow>
                     (if x = CHR '']'' then Inr (JList [], r)
                      else if k = 0 then Inl Unmodelled
                      else decode n (JElements (k - 1) []) (x # r)))
               else if has_prefix ''null'' s then Inr (JNull, drop 4 s)
               else if has_prefix ''true'' s then Inr (JBool True, drop 4 s)
               else if has_prefix ''false'' s then Inr (JBool False, drop 5 s)
               else (case scan_number s of
                       Some r \<Rightarrow> r
                     | None \<Rightarrow>
                        (if has_prefix ''NaN'' s then Inr (JFloat NaN, drop 3 s)
                         else if has_prefix ''Infinity'' s then Inr (JFloat PosInf, drop 8 s)
                         else if has_prefix ''-Infinity'' s then Inr (JFloat NegInf, drop 9 s)
                         else Inl JSONDecodeError))))
      | JMembers k acc \<Rightarrow>
          (case s of
             [] \<Rightarrow> Inl JSONDecodeError
           | c # cs \<Rightarrow>
              (if c \<noteq> CHR 0x22 then Inl JSONDecodeError
               else case scan_string cs of
                      Inl e \<Rightarrow> Inl e
                    | Inr (key, r) \<Rightarrow>
                       (case skip_ws r of
                          [] \<Rightarrow> Inl JSONDecodeError
                        | x # r1 \<Rightarrow>
                           (if x \<noteq> CHR '':'' then Inl JSONDecodeError
                            else case decode n (JValue k) (skip_ws r1) of
                                   Inl e \<Rightarrow> Inl e
                                 | Inr (v, r2) \<Rightarrow>
                                    (case skip_ws r2 of
                                       [] \<Rightarrow> Inl JSONDecodeError
                                     | y # r3 \<Rightarrow>
                                        (if y = CHR ''}'' then Inr (JDict (dict_set key v acc), r3)
                                         else if y = CHR '',''
                                         then decode n (JMembers k (dict_set key v acc)) (skip_ws r3)
                                         else Inl JSONDecodeError))))))
      | JElements k acc \<Rightarrow>
          (case decode n (JValue k) s of
             Inl e \<Rightarrow> Inl e
           | Inr (v, r) \<Rightarrow>
              (case skip_ws r of
                 [] \<Rightarrow> Inl JSONDecodeError
               | y # r1 \<Rightarrow>
                  (if y = CHR '']'' then Inr (JList (acc @ [v]), r1)
                   else if y = CHR '',''
                   then decode n (JElements k (acc @ [v])) (skip_ws r1)
                   else Inl JSONDecodeError))))"

definition loads :: "string \<Rightarrow> exn + json" where
  "loads s =
     (if \<not> list_all printable s then Inl Unmodelled
      else case decode (2 * length s + 2) (JValue max_depth) (skip_ws s) of
             Inl e \<Rightarrow> Inl e
           | Inr (v, r) \<Rightarrow> (if skip_ws r = [] then Inr v else Inl JSONDecodeError))"

text \<open>\<^verbatim>\<open>str\<close> of a decoded value that is \<^verbatim>\<open>None\<close>, a \<^verbatim>\<open>bool\<close> or an \<^verbatim>\<open>int\<close>.\<close>

function digits_of :: "int \<Rightarrow> string" where
  "digits_of n =
     (if n < 10 then [''0123456789'' ! nat n]
      else digits_of (n div 10) @ [''0123456789'' ! nat (n mod 10)])"
  by pat_completeness auto
termination
  by (relation "measure nat") auto

declare digits_of.simps [simp del]

definition str_json :: "json \<Rightarrow> exn + string" where
  "str_json v =
     (case v of
        JNull \<Rightarrow> Inr ''None''
      | JBool b \<Rightarrow> Inr (if b then ''True'' else ''False'')
      | JInt i \<Rightarrow>
         (let ds = digits_of \<bar>i\<bar>
          in if 4300 < length ds then Inl Unmodelled
             else Inr (if i < 0 then CHR ''-'' # ds else ds))
      | JStr s \<Rightarrow> Inr s
      | _ \<Rightarrow> Inl Unmodelled)"

text \<open>\<^verbatim>\<open>float\<close> of a value that is no number.\<close>

definition float_obj :: "pyobj \<Rightarrow> exn + pyfloat" where
  "float_obj x =
     (case x of
        NoneObj \<Rightarrow> Inl TypeError
      | Builtin _ \<Rightarrow> Inl TypeError
      | Dict _ \<Rightarrow> Inl TypeError
      | _ \<Rightarrow> Inl Unmodelled)"

definition cpython :: host where
  "cpython = \<lparr>json_loads = loads, py_str = str_json, py_eval = eval_sandbox, py_float = float_obj\<rparr>"

subsection \<open>The history of an instance, in the words of the specification\<close>


section \<open>Properties\<close>

subsection \<open>Conversion of large integers\<close>

text \<open>An integer of absolute value \<open>2 ^ 1024\<close> or more has no double: its binary
  exponent is above 1023, and \<^verbatim>\<open>float\<close> of it raises.\<close>

lemma bit_length_nonneg: "0 \<le> bit_length n"
proof (induction n rule: bit_length.induct)
  case (1 n)
  then show ?case by (subst bit_length.simps) auto
qed

lemma bit_length_ge: "2 ^ k \<le> n \<Longrightarrow> int k + 1 \<le> bit_length n"
proof (induction k arbitrary: n)
  case 0
  then have "0 < n" by simp
  then show ?case
    using bit_length_nonneg [of "n div 2"] by (subst bit_length.simps) simp
next
  case (Suc k)
  have "(0::int) < 2 ^ Suc k" by simp
  with Suc.prems have pos: "0 < n" by linarith
  from Suc.prems have "2 ^ k \<le> n div 2" by simp
  then have "int k + 1 \<le> bit_length (n div 2)" by (rule Suc.IH)
  then show ?case using pos by (subst bit_length.simps) simp
qed

lemma floor_log2_ge:
  assumes "2 ^ k \<le> a"
  shows "int k \<le> floor_log2 a"
proof -
  have "(1::rat) \<le> 2 ^ k" by simp
  then have a1: "1 \<le> a" using assms by linarith
  have "of_int (2 ^ k) \<le> a" using assms by simp
  then have "2 ^ k \<le> \<lfloor>a\<rfloor>" by (simp only: le_floor_iff)
  then have "int k + 1 \<le> bit_length \<lfloor>a\<rfloor>" by (rule bit_length_ge)
  then show ?thesis using a1 by (simp add: floor_log2_def)
qed

lemma round_double_overflow:
  assumes "2 ^ 1024 \<le> \<bar>q\<bar>"
  shows "round_double q = (if 0 < q then PosInf else NegInf)"
proof -
  have "int 1024 \<le> floor_log2 \<bar>q\<bar>" using assms by (rule floor_log2_ge)
  then have e: "1023 < max (floor_log2 \<bar>q\<bar>) (- 1022)" by simp
  have "q \<noteq> 0" using assms by auto
  with e show ?thesis
    unfolding round_double_def Let_def by (simp only: if_False if_True simp_thms)
qed

lemma float_of_int_overflow:
  assumes "2 ^ 1024 \<le> \<bar>n\<bar>"
  shows "float_of_int n = Inl OverflowError"
proof -
  have "of_int (2 ^ 1024) \<le> (of_int \<bar>n\<bar> :: rat)"
    using assms by (simp only: of_int_le_iff)
  then have "(2::rat) ^ 1024 \<le> \<bar>of_int n\<bar>" by simp
  then show ?thesis by (simp add: float_of_int_def round_double_overflow)
qed

lemma power_10_400_large: "(2::int) ^ 1024 \<le> \<bar>10 ^ 400\<bar>"
  by simp

subsection \<open>The three tolerances\<close>

text \<open>The doubles that \<^verbatim>\<open>1e-10\<close>, \<^verbatim>\<open>0.01\<close> and \<^verbatim>\<open>0.1\<close> denote
  (\<^verbatim>\<open>float.as_integer_ratio\<close> gives the same fractions).\<close>

lemma tolerances:
  "tol_exact = Finite (7737125245533627 / 77371252455336267181195264)"
  "tol_very_close = Finite (5764607523034235 / 576460752303423488)"
  "tol_close = Finite (3602879701896397 / 36028797018963968)"
  by code_simp+

text \<open>Differences are rounded as Python rounds them: \<^verbatim>\<open>10.01 - 10\<close> is the double
  \<^verbatim>\<open>0.009999999999999787\<close>, below \<^verbatim>\<open>0.01\<close>, and scores 0.8.\<close>

lemma score_10_01:
  "score (Some (PyFloat (round_double (1001 / 100)))) (Some (PyInt 10)) = Inr 0.8"
  by code_simp

subsection \<open>The methods, step by step\<close>

lemma calc_reward_snd: "snd (calc_reward d i) = d"
  by (simp add: calc_reward_def split: option.splits sum.splits)

lemma calc_reward_score:
  "calc_reward d i =
     (case d i of None \<Rightarrow> (Inl (KeyError i), d)
      | Some inst \<Rightarrow> (score (result inst) (expected_result inst), d))"
  by (simp add: calc_reward_def score_def split: option.splits sum.splits)

text \<open>The tier table, wherever the difference of result and target can be formed.\<close>

lemma calc_reward_tiers:
  assumes "d i = Some inst"
  shows "result inst = Some r \<Longrightarrow> expected_result inst = Some t \<Longrightarrow> py_sub r t = Inr x \<Longrightarrow>
           fst (calc_reward d i) =
             Inr (if py_less (py_abs x) tol_exact then 1
                  else if py_less (py_abs x) tol_very_close then 0.8
                  else if py_less (py_abs x) tol_close then 0.5 else 0)"
    and "result inst = None \<or> expected_result inst = None \<Longrightarrow> fst (calc_reward d i) = Inr 0"
  using assms by (auto simp: calc_reward_def tier_def split: option.splits)


lemma execute_step:
  assumes "d i = Some inst" "parse_parameters h p = Inr ex" "evaluate h ex = Inr res"
    and "score res (expected_result inst) = Inr rw"
  shows "execute h d i p =
           (Inr (Message ex res, shaping rw (reward inst), []),
            d(i \<mapsto> inst\<lparr>expression := ex, result := res, reward := rw\<rparr>))"
  using assms by (simp add: execute_def Let_def calc_reward_score)

lemma execute_step_raises:
  assumes "d i = Some inst" "parse_parameters h p = Inr ex" "evaluate h ex = Inr res"
    and "score res (expected_result inst) = Inl e"
  shows "execute h d i p = (Inl e, d(i \<mapsto> inst\<lparr>expression := ex, result := res\<rparr>))"
  using assms by (simp add: execute_def Let_def calc_reward_score)


text \<open>What \<^verbatim>\<open>except Exception\<close> absorbs: an exception of the evaluation and an
  exception of the conversion to \<^verbatim>\<open>float\<close>.\<close>

lemma evaluate_absorbs:
  "py_eval h ex = Inl e \<Longrightarrow> is_Exception e \<Longrightarrow> evaluate h ex = Inr None"
  "py_eval h ex = Inr (Obj x) \<Longrightarrow> py_float h x = Inl e \<Longrightarrow> is_Exception e \<Longrightarrow>
     evaluate h ex = Inr None"
  by (simp_all add: evaluate_def absorb_def)

subsection \<open>Runs of the interpreter fragment\<close>














lemma pp_import: \<open>parse_parameters cpython ''{"expression": "__import__('os').system('ls')"}'' = Inr ''__import__('os').system('ls')''\<close>
  by code_simp

lemma eval_import: \<open>py_eval cpython ''__import__('os').system('ls')'' = Inl (NameError ''__import__'')\<close>
  by code_simp

lemma pp_real: \<open>parse_parameters cpython ''{"expression": "(10).real"}'' = Inr ''(10).real''\<close>
  by code_simp

lemma ev_real: \<open>evaluate cpython ''(10).real'' = Inr (Some (PyInt 10))\<close>
  by code_simp

lemma pp_power: \<open>parse_parameters cpython ''{"expression": "10**400"}'' = Inr ''10**400''\<close>
  by code_simp

lemma ev_power: \<open>evaluate cpython ''10**400'' = Inr (Some (PyInt (10 ^ 400)))\<close>
  by code_simp

lemma score_10_10: "score (Some (PyInt 10)) (Some (PyInt 10)) = Inr 1"
  by code_simp


lemma score_None: "score None t = Inr 0"
  by (simp add: score_def)

lemma score_overflow: "score (Some (PyInt (10 ^ 400))) (Some (PyFloat (Finite 10))) = Inl OverflowError"
  using float_of_int_overflow [OF power_10_400_large]
  by (simp add: score_def py_sub_def as_float_def)





subsection \<open>Scoring\<close>

text \<open>
  C1. The specification has \<^verbatim>\<open>calc_reward\<close> return a tier for every numeric result
  and target. It does wherever the difference can be formed (\<open>calc_reward_tiers\<close>), and
  it returns 0.0 where either is missing. It does not for the result \<^verbatim>\<open>10**400\<close>, an
  \<^verbatim>\<open>int\<close>, and the target \<^verbatim>\<open>10.0\<close>, a \<^verbatim>\<open>float\<close>: \<^verbatim>\<open>result - expected\<close> converts
  the \<^verbatim>\<open>int\<close>, and the call ends in an \<^verbatim>\<open>OverflowError\<close>.
\<close>

theorem calc_reward_raises:
  \<open>calc_reward [''s1'' \<mapsto> \<lparr>expression = ''10**400'', result = Some (PyInt (10 ^ 400)), expected_result = Some (PyFloat (Finite 10)), reward = 0\<rparr>] ''s1''
     = (Inl OverflowError,
        [''s1'' \<mapsto> \<lparr>expression = ''10**400'', result = Some (PyInt (10 ^ 400)), expected_result = Some (PyFloat (Finite 10)), reward = 0\<rparr>])\<close>
  by (simp only: calc_reward_score fun_upd_same option.case tool_instance.select_convs
        score_overflow)

text \<open>
  C9. \<^verbatim>\<open>calc_reward\<close> hands the instance dictionary back as it received it, whether it
  returns a reward or raises, so that asking again gives the same answer.
\<close>

theorem calc_reward_frame:
  "snd (calc_reward d instance_id) = d \<and>
   calc_reward (snd (calc_reward d instance_id)) instance_id = calc_reward d instance_id"
  by (simp add: calc_reward_snd)

subsection \<open>Creation and release\<close>

text \<open>
  C10. \<^verbatim>\<open>create\<close> with an identifier that is already a key does not fail: it returns
  the identifier, and the entry \<open>old\<close> is replaced by a fresh one (empty expression, no
  result, reward 0.0 and the target just given); nothing of \<open>old\<close> is left.
\<close>

theorem create_replaces:
  "create uuid (d(i \<mapsto> old)) (Some i) t =
     (i, d(i \<mapsto> \<lparr>expression = [], result = None, expected_result = t, reward = 0\<rparr>))"
  by (simp add: create_def)



subsection \<open>The shaping reward\<close>



subsection \<open>What is stored after a call\<close>







subsection \<open>Payloads\<close>



subsection \<open>The sandbox and the response\<close>

text \<open>Names: \<^verbatim>\<open>abs\<close>, \<^verbatim>\<open>round\<close> and \<^verbatim>\<open>__builtins__\<close> (bound to the empty dictionary
  of the globals) are found; every other name is a \<^verbatim>\<open>NameError\<close>.\<close>

lemma names_of_the_sandbox:
  "x \<notin> {''abs'', ''round'', ''__builtins__''} \<Longrightarrow> eval_expr (Name x) = Inl (NameError x)"
  by (simp add: lookup_name_def sandbox_locals_def sandbox_globals_def)

text \<open>The expression \<^verbatim>\<open>__import__('os').system('ls')\<close> stops at the name
  \<^verbatim>\<open>__import__\<close>: no result, reward 0.0, and a response is returned.\<close>

lemma import_expression_neutralised:
  \<open>execute cpython [''s1'' \<mapsto> \<lparr>expression = [], result = None, expected_result = Some (PyInt 10), reward = 0\<rparr>] ''s1'' ''{"expression": "__import__('os').system('ls')"}''
     = (Inr (Message ''__import__('os').system('ls')'' None, - 0.05, []),
        [''s1'' \<mapsto> \<lparr>expression = ''__import__('os').system('ls')'', result = None, expected_result = Some (PyInt 10), reward = 0\<rparr>])\<close>
proof -
  have \<open>evaluate cpython ''__import__('os').system('ls')'' = Inr None\<close>
    using eval_import by (rule evaluate_absorbs) simp
  from execute_step [where h = cpython and i = "''s1''" and rw = 0, OF _ pp_import this]
  show ?thesis by (simp add: score_None shaping_def)
qed

text \<open>
  C5. The specification has the evaluation expose nothing but the two functions and
  permit no attribute access. Names are restricted in this way (up to
  \<^verbatim>\<open>__builtins__\<close>), and the expression with \<^verbatim>\<open>__import__\<close> is neutralised.
  Attribute references are not restricted: \<^verbatim>\<open>(10).real\<close> is evaluated, to 10, and
  scores 1.0 against the target 10.
\<close>

theorem attribute_reference_evaluated:
  \<open>py_eval cpython ''(10).real'' = Inr (Num (PyInt 10))
   \<and> execute cpython [''s1'' \<mapsto> \<lparr>expression = [], result = None, expected_result = Some (PyInt 10), reward = 0\<rparr>] ''s1'' ''{"expression": "(10).real"}''
     = (Inr (Message ''(10).real'' (Some (PyInt 10)), 0, []),
        [''s1'' \<mapsto> \<lparr>expression = ''(10).real'', result = Some (PyInt 10), expected_result = Some (PyInt 10), reward = 1\<rparr>])\<close>
proof
  show \<open>py_eval cpython ''(10).real'' = Inr (Num (PyInt 10))\<close>
    by code_simp
  show \<open>execute cpython [''s1'' \<mapsto> \<lparr>expression = [], result = None, expected_result = Some (PyInt 10), reward = 0\<rparr>] ''s1'' ''{"expression": "(10).real"}''
     = (Inr (Message ''(10).real'' (Some (PyInt 10)), 0, []),
        [''s1'' \<mapsto> \<lparr>expression = ''(10).real'', result = Some (PyInt 10), expected_result = Some (PyInt 10), reward = 1\<rparr>])\<close>
    using execute_step [where h = cpython and i = "''s1''" and rw = 1, OF _ pp_real ev_real]
    by (simp add: score_10_10 shaping_def)
qed

text \<open>
  C6. The specification has \<^verbatim>\<open>execute\<close> return a response for every payload on a
  known instance. Exceptions of the evaluation are absorbed (\<open>evaluate_absorbs\<close>), but
  the call of \<^verbatim>\<open>calc_reward\<close> is outside the \<^verbatim>\<open>try\<close>: with the target \<^verbatim>\<open>10.0\<close> and the
  expression \<^verbatim>\<open>10**400\<close>, \<^verbatim>\<open>execute\<close> stores the expression and the result and then
  ends in the \<^verbatim>\<open>OverflowError\<close> of \<^verbatim>\<open>result - expected\<close>; the stored reward is not
  updated.
\<close>

theorem execute_raises:
  \<open>execute cpython [''s1'' \<mapsto> \<lparr>expression = [], result = None, expected_result = Some (PyFloat (Finite 10)), reward = 0\<rparr>] ''s1'' ''{"expression": "10**400"}''
     = (Inl OverflowError,
        [''s1'' \<mapsto> \<lparr>expression = ''10**400'', result = Some (PyInt (10 ^ 400)), expected_result = Some (PyFloat (Finite 10)), reward = 0\<rparr>])\<close>
proof -
  let ?inst = \<open>\<lparr>expression = [], result = None, expected_result = Some (PyFloat (Finite 10)), reward = 0\<rparr>\<close>
  have d: "[''s1'' \<mapsto> ?inst] ''s1'' = Some ?inst"
    by simp
  have sc: "score (Some (PyInt (10 ^ 400))) (expected_result ?inst) = Inl OverflowError"
    by (simp only: tool_instance.select_convs score_overflow)
  show ?thesis
    by (simp only: execute_step_raises [where d = "[''s1'' \<mapsto> ?inst]" and i = "''s1''",
            OF d pp_power ev_power sc] fun_upd_upd tool_instance.update_convs)
qed

end
